theory Spec2Isabelle
  imports Complex_Main
begin

section \<open>Arrays\<close>

text \<open>
  The stabilizer of \<^verbatim>\<open>stabilizer.py\<close> keeps its numbers in numpy arrays of
  \<^verbatim>\<open>float32\<close>. An array with two axes is a list of rows here, and its entries are
  real numbers: rounding is not part of the model, so every statement below is about the
  computation in exact arithmetic.
\<close>

type_synonym mat = "real list list"

datatype ndarray = Array1 "real list" | Array2 mat

text \<open>
  \<open>AssertionError\<close> is the \<^verbatim>\<open>assert\<close> of the constructor (the mode check),
  \<open>IndexError\<close> is Python's error for \<^verbatim>\<open>measurement[i]\<close> out of range, and
  \<open>CvError\<close> is \<^verbatim>\<open>cv2.error\<close>, raised by OpenCV when an assertion of the
  library fails (a size that is not positive, operands whose shapes do not fit).
\<close>

datatype error = AssertionError | IndexError | CvError

definition nrows :: "mat \<Rightarrow> nat" where
  "nrows A = length A"

definition ncols :: "mat \<Rightarrow> nat" where
  "ncols A = (case A of [] \<Rightarrow> 0 | r # _ \<Rightarrow> length r)"

definition is_mat :: "nat \<Rightarrow> nat \<Rightarrow> mat \<Rightarrow> bool" where
  "is_mat r c A = (length A = r \<and> list_all (\<lambda>row. length row = c) A)"

definition zeros :: "nat \<Rightarrow> nat \<Rightarrow> mat" where
  "zeros r c = replicate r (replicate c 0)"

definition eye :: "nat \<Rightarrow> mat" where
  "eye n = map (\<lambda>i. map (\<lambda>j. if i = j then 1 else 0) [0..<n]) [0..<n]"

text \<open>
  \<^verbatim>\<open>A * c\<close> for an array \<open>A\<close> and a number \<open>c\<close>: entry by entry. The program
  rounds \<open>c\<close> to \<^verbatim>\<open>float32\<close> before it multiplies and the model does not: where
  the model has the entry \<open>c\<close>, the program holds the \<^verbatim>\<open>float32\<close> nearest to
  \<open>c\<close>, which is zero for a positive \<open>c\<close> below the range of \<^verbatim>\<open>float32\<close>.
  The sign of such an entry is therefore stated below only in the direction that rounding
  keeps: an entry is not positive when \<open>c\<close> is not.
\<close>

definition scale :: "mat \<Rightarrow> real \<Rightarrow> mat" where
  "scale A c = map (map (\<lambda>a. a * c)) A"

definition mat_t :: "mat \<Rightarrow> mat" where
  "mat_t A = map (\<lambda>j. map (\<lambda>row. row ! j) A) [0..<ncols A]"

definition dot :: "real list \<Rightarrow> real list \<Rightarrow> real" where
  "dot u v = sum_list (map2 (*) u v)"

text \<open>
  Modelled from the spec: the matrix products, sums and differences inside the filter core,
  which OpenCV provides and the sources do not contain. Operands whose shapes do not fit
  are an error (the spec's internal matrix-dimension mismatch): OpenCV asserts the shapes
  and raises \<^verbatim>\<open>cv2.error\<close>.
\<close>

definition mat_mul :: "mat \<Rightarrow> mat \<Rightarrow> error + mat" where
  "mat_mul A B =
     (if ncols A = nrows B then Inr (map (\<lambda>row. map (dot row) (mat_t B)) A)
      else Inl CvError)"

definition mat_add :: "mat \<Rightarrow> mat \<Rightarrow> error + mat" where
  "mat_add A B =
     (if nrows A = nrows B \<and> ncols A = ncols B then Inr (map2 (map2 (+)) A B)
      else Inl CvError)"

definition mat_sub :: "mat \<Rightarrow> mat \<Rightarrow> error + mat" where
  "mat_sub A B =
     (if nrows A = nrows B \<and> ncols A = ncols B then Inr (map2 (map2 (-)) A B)
      else Inl CvError)"

text \<open>\<^verbatim>\<open>gemm(A, B, 1, C, 1, dst, GEMM_2_T)\<close>: the product of \<open>A\<close> with the transpose
  of \<open>B\<close>, plus \<open>C\<close>.\<close>

definition gemm_2T :: "mat \<Rightarrow> mat \<Rightarrow> mat \<Rightarrow> error + mat" where
  "gemm_2T A B C =
     (case mat_mul A (mat_t B) of
        Inl e \<Rightarrow> Inl e
      | Inr D \<Rightarrow> mat_add D C)"

section \<open>The filter core\<close>

text \<open>
  Modelled from the spec: the class \<^verbatim>\<open>cv2.KalmanFilter\<close> that the stabilizer
  instantiates (the spec's LinearKalmanCore) is OpenCV's and is not among the sources.
  The record holds the fields the stabilizer reads and writes, under OpenCV's names:
  \<open>statePost\<close> is the state vector x, \<open>errorCovPost\<close> the error covariance P,
  \<open>transitionMatrix\<close> is F, \<open>measurementMatrix\<close> is H, \<open>processNoiseCov\<close> is Q and
  \<open>measurementNoiseCov\<close> is R; \<open>statePre\<close>, \<open>errorCovPre\<close> and \<open>gain\<close> hold the a
  priori state and covariance and the Kalman gain K of the last cycle.
\<close>

record KalmanFilter =
  statePre :: mat
  statePost :: mat
  transitionMatrix :: mat
  processNoiseCov :: mat
  measurementMatrix :: mat
  measurementNoiseCov :: mat
  errorCovPre :: mat
  errorCovPost :: mat
  gain :: mat

text \<open>
  Modelled from the spec: \<^verbatim>\<open>cv2.KalmanFilter(dynamParams, measureParams, 0)\<close>.
  The state is the zero vector. Both sizes must be positive (OpenCV asserts it). F, Q and
  R start as identities and H as zero, until the stabilizer assigns its own. The spec leaves
  the initial P open; OpenCV starts from the zero matrix, and no theorem below depends on
  that choice.
\<close>

definition KalmanFilter_init :: "int \<Rightarrow> int \<Rightarrow> error + KalmanFilter" where
  "KalmanFilter_init dynamParams measureParams =
     (if 0 < dynamParams \<and> 0 < measureParams then
        (let DP = nat dynamParams; MP = nat measureParams in
         Inr \<lparr>statePre = zeros DP 1,
              statePost = zeros DP 1,
              transitionMatrix = eye DP,
              processNoiseCov = eye DP,
              measurementMatrix = zeros MP DP,
              measurementNoiseCov = eye MP,
              errorCovPre = zeros DP DP,
              errorCovPost = zeros DP DP,
              gain = zeros DP MP\<rparr>)
      else Inl CvError)"

text \<open>
  Modelled from the spec: \<^verbatim>\<open>predict()\<close>. The a priori state is \<open>F x\<close> and the a
  priori covariance is \<open>F P F\<^sup>T + Q\<close>; both replace the stored state and covariance, and
  the a priori state is returned. The fields are written in OpenCV's order, so a product
  of misfitting shapes leaves the filter as far as the call got.
\<close>

definition kf_predict :: "KalmanFilter \<Rightarrow> (error + mat) \<times> KalmanFilter" where
  "kf_predict f =
     (case mat_mul (transitionMatrix f) (statePost f) of
        Inl e \<Rightarrow> (Inl e, f)
      | Inr x \<Rightarrow>
          (let f1 = f\<lparr>statePre := x\<rparr> in
           case mat_mul (transitionMatrix f1) (errorCovPost f1) of
             Inl e \<Rightarrow> (Inl e, f1)
           | Inr temp1 \<Rightarrow>
               (case gemm_2T temp1 (transitionMatrix f1) (processNoiseCov f1) of
                  Inl e \<Rightarrow> (Inl e, f1)
                | Inr p \<Rightarrow>
                    (Inr x, f1\<lparr>errorCovPre := p, statePost := x, errorCovPost := p\<rparr>))))"

text \<open>
  The solver of the linear system \<open>S X = B\<close> that \<^verbatim>\<open>correct\<close> calls
  (\<^verbatim>\<open>cv2.solve\<close> with a singular value decomposition, which returns a least squares
  solution also for a singular \<open>S\<close> and never raises) is a parameter of the model. What
  the theorems need of it, where they need anything, is that the solution has the shape of
  the right-hand side.
\<close>

type_synonym solver = "mat \<Rightarrow> mat \<Rightarrow> mat"

definition solver_ok :: "solver \<Rightarrow> bool" where
  "solver_ok slv = (\<forall>S B k n. is_mat k k S \<and> is_mat k n B \<longrightarrow> is_mat k n (slv S B))"

text \<open>The exact solver for a single equation, \<open>X = B / s\<close>.\<close>

definition solve_1x1 :: solver where
  "solve_1x1 S B = map (map (\<lambda>b. b / hd (hd S))) B"

text \<open>
  Modelled from the spec: \<^verbatim>\<open>correct(z)\<close>. With \<open>S = H P H\<^sup>T + R\<close> the gain is
  \<open>K = P H\<^sup>T S\<^sup>-\<^sup>1\<close>, computed as the transpose of the solution of \<open>S X = H P\<close>; the a
  posteriori state is \<open>x + K (z - H x)\<close> and the covariance \<open>P - K H P\<close>. The a
  posteriori state is returned.
\<close>

definition kf_correct :: "solver \<Rightarrow> mat \<Rightarrow> KalmanFilter \<Rightarrow> (error + mat) \<times> KalmanFilter" where
  "kf_correct slv z f =
     (case mat_mul (measurementMatrix f) (errorCovPre f) of
        Inl e \<Rightarrow> (Inl e, f)
      | Inr temp2 \<Rightarrow>
          (case gemm_2T temp2 (measurementMatrix f) (measurementNoiseCov f) of
             Inl e \<Rightarrow> (Inl e, f)
           | Inr temp3 \<Rightarrow>
               (let f1 = f\<lparr>gain := mat_t (slv temp3 temp2)\<rparr> in
                case mat_mul (measurementMatrix f1) (statePre f1) of
                  Inl e \<Rightarrow> (Inl e, f1)
                | Inr hx \<Rightarrow>
                    (case mat_sub z hx of
                       Inl e \<Rightarrow> (Inl e, f1)
                     | Inr temp5 \<Rightarrow>
                         (case mat_mul (gain f1) temp5 of
                            Inl e \<Rightarrow> (Inl e, f1)
                          | Inr kt \<Rightarrow>
                              (case mat_add (statePre f1) kt of
                                 Inl e \<Rightarrow> (Inl e, f1)
                               | Inr x \<Rightarrow>
                                   (let f2 = f1\<lparr>statePost := x\<rparr> in
                                    case mat_mul (gain f2) temp2 of
                                      Inl e \<Rightarrow> (Inl e, f2)
                                    | Inr kp \<Rightarrow>
                                        (case mat_sub (errorCovPre f2) kp of
                                           Inl e \<Rightarrow> (Inl e, f2)
                                         | Inr p \<Rightarrow>
                                             (Inr x, f2\<lparr>errorCovPost := p\<rparr>)))))))))"

section \<open>The stabilizer\<close>

text \<open>The fields of \<^verbatim>\<open>class Stabilizer\<close>.\<close>

record Stabilizer =
  state_num :: int
  measure_num :: int
  filter_kf :: KalmanFilter
  state :: mat
  measurement :: ndarray
  prediction :: mat

text \<open>
  \<^verbatim>\<open>Stabilizer.__init__\<close>; the arguments \<open>sn\<close> and \<open>mn\<close> are its
  \<^verbatim>\<open>state_num\<close> and \<^verbatim>\<open>measure_num\<close>. The assertion looks at \<open>state_num\<close>
  only. The two \<^verbatim>\<open>if\<close> statements that assign the matrices look at \<open>measure_num\<close>
  only. \<^verbatim>\<open>np.array((measure_num, 1), np.float32)\<close> is the array with one axis and
  the two entries \<open>measure_num\<close> and \<open>1\<close>.
\<close>

definition Stabilizer_init :: "int \<Rightarrow> int \<Rightarrow> real \<Rightarrow> real \<Rightarrow> error + Stabilizer" where
  "Stabilizer_init sn mn cov_process cov_measure =
     (if \<not> (sn = 4 \<or> sn = 2) then Inl AssertionError
      else
        (case KalmanFilter_init sn mn of
           Inl e \<Rightarrow> Inl e
         | Inr kf \<Rightarrow>
             (let s0 = \<lparr>state_num = sn,
                        measure_num = mn,
                        filter_kf = kf,
                        state = zeros (nat sn) 1,
                        measurement = Array1 [of_int mn, 1],
                        prediction = zeros (nat sn) 1\<rparr>;
                  s1 = (if measure_num s0 = 1 then
                          s0\<lparr>filter_kf := (filter_kf s0)
                            \<lparr>transitionMatrix := [[1, 1],
                                                  [0, 1]],
                             measurementMatrix := [[1, 1]],
                             processNoiseCov := scale [[1, 0],
                                                       [0, 1]] cov_process,
                             measurementNoiseCov := scale [[1]] cov_measure\<rparr>\<rparr>
                        else s0);
                  s2 = (if measure_num s1 = 2 then
                          s1\<lparr>filter_kf := (filter_kf s1)
                            \<lparr>transitionMatrix := [[1, 0, 1, 0],
                                                  [0, 1, 0, 1],
                                                  [0, 0, 1, 0],
                                                  [0, 0, 0, 1]],
                             measurementMatrix := [[1, 0, 0, 0],
                                                   [0, 1, 0, 0]],
                             processNoiseCov := scale [[1, 0, 0, 0],
                                                       [0, 1, 0, 0],
                                                       [0, 0, 1, 0],
                                                       [0, 0, 0, 1]] cov_process,
                             measurementNoiseCov := scale [[1, 0],
                                                           [0, 1]] cov_measure\<rparr>\<rparr>
                        else s1)
              in Inr s2)))"

text \<open>
  The measurement vector that \<^verbatim>\<open>update\<close> builds: \<^verbatim>\<open>measurement[0]\<close> alone when
  \<open>measure_num\<close> is 1, \<^verbatim>\<open>measurement[0]\<close> and \<^verbatim>\<open>measurement[1]\<close> otherwise. An
  index past the end raises.
\<close>

definition pack :: "int \<Rightarrow> real list \<Rightarrow> error + mat" where
  "pack mn m =
     (if mn = 1 then
        (case m of [] \<Rightarrow> Inl IndexError | a # _ \<Rightarrow> Inr [[a]])
      else
        (case m of a # b # _ \<Rightarrow> Inr [[a], [b]] | _ \<Rightarrow> Inl IndexError))"

text \<open>
  \<^verbatim>\<open>Stabilizer.update\<close>. The result is the exception raised, if any, and the object
  as the call leaves it: an exception does not undo the assignments made before it.
\<close>

definition update :: "solver \<Rightarrow> real list \<Rightarrow> Stabilizer \<Rightarrow> error option \<times> Stabilizer" where
  "update slv m s =
     (case kf_predict (filter_kf s) of
        (Inl e, f1) \<Rightarrow> (Some e, s\<lparr>filter_kf := f1\<rparr>)
      | (Inr p, f1) \<Rightarrow>
          (let s1 = s\<lparr>filter_kf := f1, prediction := p\<rparr> in
           case pack (measure_num s1) m of
             Inl e \<Rightarrow> (Some e, s1)
           | Inr z \<Rightarrow>
               (let s2 = s1\<lparr>measurement := Array2 z\<rparr> in
                case kf_correct slv z (filter_kf s2) of
                  (Inl e, f2) \<Rightarrow> (Some e, s2\<lparr>filter_kf := f2\<rparr>)
                | (Inr x, f2) \<Rightarrow>
                    (None, s2\<lparr>filter_kf := f2, state := statePost f2\<rparr>))))"

text \<open>\<^verbatim>\<open>Stabilizer.set_q_r\<close>.\<close>

definition set_q_r :: "real \<Rightarrow> real \<Rightarrow> Stabilizer \<Rightarrow> Stabilizer" where
  "set_q_r cov_process cov_measure s =
     (if measure_num s = 1 then
        s\<lparr>filter_kf := (filter_kf s)
          \<lparr>processNoiseCov := scale [[1, 0],
                                    [0, 1]] cov_process,
           measurementNoiseCov := scale [[1]] cov_measure\<rparr>\<rparr>
      else
        s\<lparr>filter_kf := (filter_kf s)
          \<lparr>processNoiseCov := scale [[1, 0, 0, 0],
                                    [0, 1, 0, 0],
                                    [0, 0, 1, 0],
                                    [0, 0, 0, 1]] cov_process,
           measurementNoiseCov := scale [[1, 0],
                                        [0, 1]] cov_measure\<rparr>\<rparr>)"

section \<open>Configurations, shapes and reachable states\<close>

text \<open>
  The two configurations the stabilizer is written for: a scalar (two states, one
  measurement) and a point (four states, two measurements).
\<close>

definition supported :: "int \<Rightarrow> int \<Rightarrow> bool" where
  "supported sn mn = ((sn = 2 \<and> mn = 1) \<or> (sn = 4 \<and> mn = 2))"

text \<open>
  The shapes of a filter with \<open>n\<close> states and \<open>m\<close> measurements: the matrices and the
  state and covariance that \<^verbatim>\<open>predict\<close> reads.
\<close>

definition dims_ok :: "nat \<Rightarrow> nat \<Rightarrow> KalmanFilter \<Rightarrow> bool" where
  "dims_ok n m f =
     (is_mat n n (transitionMatrix f) \<and> is_mat m n (measurementMatrix f) \<and>
      is_mat n n (processNoiseCov f) \<and> is_mat m m (measurementNoiseCov f) \<and>
      is_mat n 1 (statePost f) \<and> is_mat n n (errorCovPost f))"

text \<open>
  A stabilizer in a supported configuration whose filter, state and prediction have the
  shapes of that configuration.
\<close>

definition wf :: "Stabilizer \<Rightarrow> bool" where
  "wf s =
     (supported (state_num s) (measure_num s) \<and>
      dims_ok (nat (state_num s)) (nat (measure_num s)) (filter_kf s) \<and>
      is_mat (nat (state_num s)) 1 (state s) \<and>
      is_mat (nat (state_num s)) 1 (prediction s))"

text \<open>
  The stabilizers reachable from a supported construction by calls of \<^verbatim>\<open>update\<close>
  (completed or not: the object stays as the exception left it) and of
  \<^verbatim>\<open>set_q_r\<close>. The two numbers are the current noise scalars: those given to the
  constructor, or to the last \<^verbatim>\<open>set_q_r\<close>.
\<close>

inductive reachable :: "solver \<Rightarrow> Stabilizer \<Rightarrow> real \<Rightarrow> real \<Rightarrow> bool" for slv :: solver where
  constructed:
    "supported sn mn \<Longrightarrow> Stabilizer_init sn mn cp cm = Inr s \<Longrightarrow> reachable slv s cp cm"
| updated:
    "reachable slv s cp cm \<Longrightarrow> reachable slv (snd (update slv m s)) cp cm"
| retuned:
    "reachable slv s cp cm \<Longrightarrow> reachable slv (set_q_r cp' cm' s) cp' cm'"

text \<open>The scalar \<open>c\<close> times the identity of size \<open>n\<close>.\<close>

definition scaled_identity :: "nat \<Rightarrow> real \<Rightarrow> mat" where
  "scaled_identity n c = map (\<lambda>i. map (\<lambda>j. if i = j then c else 0) [0..<n]) [0..<n]"



text \<open>
  A sequence of updates, one measurement after the other, with what each call shows to
  the caller: the exception if any, the prediction and the state.
\<close>

fun run_updates :: "solver \<Rightarrow> real list list \<Rightarrow> Stabilizer \<Rightarrow> (error option \<times> mat \<times> mat) list" where
  "run_updates slv [] s = []"
| "run_updates slv (m # ms) s =
     (case update slv m s of
        (r, s') \<Rightarrow> (r, prediction s', state s') # run_updates slv ms s')"

section \<open>Shapes are preserved\<close>

lemma is_mat_nrows: "is_mat r c A \<Longrightarrow> nrows A = r"
  by (simp add: is_mat_def nrows_def)

lemma is_mat_ncols: "is_mat r c A \<Longrightarrow> 0 < r \<Longrightarrow> ncols A = c"
  by (cases A) (auto simp: is_mat_def ncols_def)

lemma is_mat_mat_t: "is_mat r c A \<Longrightarrow> 0 < r \<Longrightarrow> is_mat c r (mat_t A)"
  by (cases A) (auto simp: is_mat_def mat_t_def ncols_def list_all_iff)

lemma mat_mul_shape: "mat_mul A B = Inr C \<Longrightarrow> is_mat (nrows A) (ncols B) C"
  by (auto simp: mat_mul_def is_mat_def nrows_def mat_t_def list_all_iff split: if_splits)

lemma mat_mul_ok:
  assumes "is_mat r k A" "is_mat k c B" "0 < r" "0 < k"
  shows "\<exists>C. mat_mul A B = Inr C \<and> is_mat r c C"
proof -
  have "ncols A = nrows B"
    using assms by (simp add: is_mat_ncols is_mat_nrows)
  then obtain C where C: "mat_mul A B = Inr C"
    by (simp add: mat_mul_def)
  from mat_mul_shape[OF C] assms C show ?thesis
    by (simp add: is_mat_ncols is_mat_nrows)
qed

lemma map2_shape:
  "is_mat r c A \<Longrightarrow> is_mat r c B \<Longrightarrow> is_mat r c (map2 (map2 f) A B)"
  by (auto simp: is_mat_def list_all_iff set_zip)

lemma mat_add_shape:
  assumes "mat_add A B = Inr C" "is_mat r c A" "is_mat r' c' B" "0 < r"
  shows "is_mat r c C"
proof -
  from assms(1) have eq: "nrows A = nrows B" "ncols A = ncols B" "C = map2 (map2 (+)) A B"
    by (auto simp: mat_add_def split: if_splits)
  with assms have "r' = r" "c' = c"
    by (auto simp: is_mat_nrows is_mat_ncols)
  with assms eq show ?thesis
    by (simp add: map2_shape)
qed

lemma mat_sub_shape:
  assumes "mat_sub A B = Inr C" "is_mat r c A" "is_mat r' c' B" "0 < r"
  shows "is_mat r c C"
proof -
  from assms(1) have eq: "nrows A = nrows B" "ncols A = ncols B" "C = map2 (map2 (-)) A B"
    by (auto simp: mat_sub_def split: if_splits)
  with assms have "r' = r" "c' = c"
    by (auto simp: is_mat_nrows is_mat_ncols)
  with assms eq show ?thesis
    by (simp add: map2_shape)
qed

lemma mat_add_ok:
  "is_mat r c A \<Longrightarrow> is_mat r c B \<Longrightarrow> 0 < r \<Longrightarrow> \<exists>C. mat_add A B = Inr C \<and> is_mat r c C"
  by (simp add: mat_add_def is_mat_nrows is_mat_ncols map2_shape)

lemma mat_sub_ok:
  "is_mat r c A \<Longrightarrow> is_mat r c B \<Longrightarrow> 0 < r \<Longrightarrow> \<exists>C. mat_sub A B = Inr C \<and> is_mat r c C"
  by (simp add: mat_sub_def is_mat_nrows is_mat_ncols map2_shape)

lemma gemm_2T_ok:
  assumes "is_mat r k A" "is_mat c k B" "is_mat r c C" "0 < r" "0 < k" "0 < c"
  shows "\<exists>D. gemm_2T A B C = Inr D \<and> is_mat r c D"
proof -
  have "is_mat k c (mat_t B)"
    using assms by (simp add: is_mat_mat_t)
  with assms obtain E where E: "mat_mul A (mat_t B) = Inr E" "is_mat r c E"
    using mat_mul_ok by blast
  with assms obtain D where "mat_add E C = Inr D" "is_mat r c D"
    using mat_add_ok by blast
  with E show ?thesis
    by (simp add: gemm_2T_def)
qed

text \<open>On a filter of consistent shapes, \<^verbatim>\<open>predict\<close> completes and returns \<open>F x\<close>.\<close>

lemma kf_predict_ok:
  assumes "dims_ok n m f" "0 < n"
  shows "\<exists>x p. mat_mul (transitionMatrix f) (statePost f) = Inr x \<and> is_mat n 1 x \<and> is_mat n n p \<and>
           kf_predict f = (Inr x, f\<lparr>statePre := x, errorCovPre := p, statePost := x, errorCovPost := p\<rparr>)"
proof -
  from assms obtain x where x: "mat_mul (transitionMatrix f) (statePost f) = Inr x" "is_mat n 1 x"
    unfolding dims_ok_def using mat_mul_ok by blast
  from assms obtain t where t: "mat_mul (transitionMatrix f) (errorCovPost f) = Inr t" "is_mat n n t"
    unfolding dims_ok_def using mat_mul_ok by blast
  from assms t obtain p where p: "gemm_2T t (transitionMatrix f) (processNoiseCov f) = Inr p" "is_mat n n p"
    unfolding dims_ok_def using gemm_2T_ok by blast
  from x t p show ?thesis
    by (intro exI[of _ x] exI[of _ p]) (simp add: kf_predict_def)
qed

lemma kf_correct_frame:
  "transitionMatrix (snd (kf_correct slv z f)) = transitionMatrix f \<and>
   measurementMatrix (snd (kf_correct slv z f)) = measurementMatrix f \<and>
   processNoiseCov (snd (kf_correct slv z f)) = processNoiseCov f \<and>
   measurementNoiseCov (snd (kf_correct slv z f)) = measurementNoiseCov f \<and>
   statePre (snd (kf_correct slv z f)) = statePre f \<and>
   errorCovPre (snd (kf_correct slv z f)) = errorCovPre f"
  by (simp add: kf_correct_def Let_def split: sum.splits)

lemma kf_correct_statePost:
  assumes "is_mat n 1 (statePre f)" "is_mat n 1 (statePost f)" "0 < n"
  shows "is_mat n 1 (statePost (snd (kf_correct slv z f)))"
  using assms
  by (auto simp: kf_correct_def Let_def split: sum.splits
           dest!: mat_mul_shape elim: mat_add_shape)

lemma kf_correct_errorCovPost:
  assumes "is_mat n n (errorCovPre f)" "is_mat n n (errorCovPost f)" "0 < n"
  shows "is_mat n n (errorCovPost (snd (kf_correct slv z f)))"
  using assms
  by (auto simp: kf_correct_def Let_def split: sum.splits
           dest!: mat_mul_shape elim: mat_sub_shape)

lemma kf_correct_returns:
  "kf_correct slv z f = (Inr x, f') \<Longrightarrow> x = statePost f'"
  by (auto simp: kf_correct_def Let_def split: sum.splits)


lemma kf_correct_ok:
  assumes slv: "solver_ok slv"
    and H: "is_mat m n (measurementMatrix f)" and R: "is_mat m m (measurementNoiseCov f)"
    and P: "is_mat n n (errorCovPre f)" and x: "is_mat n 1 (statePre f)"
    and z: "is_mat m 1 z" and pos: "0 < n" "0 < m"
  shows "\<exists>x' f'. kf_correct slv z f = (Inr x', f')"
proof -
  from H P pos obtain temp2 where t2: "mat_mul (measurementMatrix f) (errorCovPre f) = Inr temp2"
      "is_mat m n temp2"
    using mat_mul_ok by blast
  from t2 H R pos obtain temp3 where t3:
      "gemm_2T temp2 (measurementMatrix f) (measurementNoiseCov f) = Inr temp3" "is_mat m m temp3"
    using gemm_2T_ok by blast
  define K where "K = mat_t (slv temp3 temp2)"
  from slv t2 t3 have "is_mat m n (slv temp3 temp2)"
    unfolding solver_ok_def by blast
  with pos have K: "is_mat n m K"
    unfolding K_def by (simp add: is_mat_mat_t)
  from H x pos obtain hx where hx: "mat_mul (measurementMatrix f) (statePre f) = Inr hx"
      "is_mat m 1 hx"
    using mat_mul_ok by blast
  from z hx pos obtain temp5 where t5: "mat_sub z hx = Inr temp5" "is_mat m 1 temp5"
    using mat_sub_ok by blast
  from K t5 pos obtain kt where kt: "mat_mul K temp5 = Inr kt" "is_mat n 1 kt"
    using mat_mul_ok by blast
  from x kt pos obtain x' where x': "mat_add (statePre f) kt = Inr x'"
    using mat_add_ok by blast
  from K t2 pos obtain kp where kp: "mat_mul K temp2 = Inr kp" "is_mat n n kp"
    using mat_mul_ok by blast
  from P kp pos obtain p where p: "mat_sub (errorCovPre f) kp = Inr p"
    using mat_sub_ok by blast
  from t2 t3 hx t5 kt x' kp p show ?thesis
    by (simp add: kf_correct_def K_def)
qed

lemma pack_shape: "pack mn m = Inr z \<Longrightarrow> supported sn mn \<Longrightarrow> is_mat (nat mn) 1 z"
  by (auto simp: pack_def supported_def is_mat_def split: if_splits list.splits)

lemma pack_short: "supported sn mn \<Longrightarrow> (pack mn m = Inl IndexError) = (length m < nat mn)"
  by (auto simp: pack_def supported_def split: list.splits)

lemma supported_pos: "supported sn mn \<Longrightarrow> 0 < nat sn \<and> 0 < nat mn"
  by (auto simp: supported_def)

lemma kf_predict_frame:
  "kf_predict f = (r, f') \<Longrightarrow>
   transitionMatrix f' = transitionMatrix f \<and> measurementMatrix f' = measurementMatrix f \<and>
   processNoiseCov f' = processNoiseCov f \<and> measurementNoiseCov f' = measurementNoiseCov f"
  by (auto simp: kf_predict_def Let_def split: sum.splits)

lemma kf_correct_frame_res:
  "kf_correct slv z f = (r, f') \<Longrightarrow>
   transitionMatrix f' = transitionMatrix f \<and> measurementMatrix f' = measurementMatrix f \<and>
   processNoiseCov f' = processNoiseCov f \<and> measurementNoiseCov f' = measurementNoiseCov f"
  using kf_correct_frame[of slv z f] by simp

lemma update_frame:
  "state_num (snd (update slv m s)) = state_num s \<and>
   measure_num (snd (update slv m s)) = measure_num s \<and>
   transitionMatrix (filter_kf (snd (update slv m s))) = transitionMatrix (filter_kf s) \<and>
   measurementMatrix (filter_kf (snd (update slv m s))) = measurementMatrix (filter_kf s) \<and>
   processNoiseCov (filter_kf (snd (update slv m s))) = processNoiseCov (filter_kf s) \<and>
   measurementNoiseCov (filter_kf (snd (update slv m s))) = measurementNoiseCov (filter_kf s)"
  by (auto simp: update_def Let_def split: sum.splits prod.splits
           dest!: kf_predict_frame kf_correct_frame_res)

lemma kf_predict_shapes:
  assumes "dims_ok n m f" "0 < n" "kf_predict f = (r, f')"
  shows "dims_ok n m f' \<and> is_mat n 1 (statePre f') \<and> is_mat n n (errorCovPre f') \<and>
         (\<exists>x. r = Inr x \<and> is_mat n 1 x \<and> mat_mul (transitionMatrix f) (statePost f) = Inr x)"
  using kf_predict_ok[OF assms(1,2)] assms
  by (auto simp: dims_ok_def)

lemma kf_correct_shapes:
  assumes "dims_ok n m f" "is_mat n 1 (statePre f)" "is_mat n n (errorCovPre f)" "0 < n"
    "kf_correct slv z f = (r, f')"
  shows "dims_ok n m f'"
  using assms kf_correct_frame_res[OF assms(5)]
    kf_correct_statePost[of n f slv z] kf_correct_errorCovPost[of n f slv z]
  by (simp add: dims_ok_def)

lemma update_wf:
  assumes "wf s"
  shows "wf (snd (update slv m s))"
proof -
  let ?n = "nat (state_num s)" and ?m = "nat (measure_num s)"
  from assms have d: "dims_ok ?n ?m (filter_kf s)" and pos: "0 < ?n"
    and sup: "supported (state_num s) (measure_num s)"
    and st: "is_mat ?n 1 (state s)" and pr: "is_mat ?n 1 (prediction s)"
    by (auto simp: wf_def dest: supported_pos)
  obtain r1 f1 where p1: "kf_predict (filter_kf s) = (r1, f1)"
    by (cases "kf_predict (filter_kf s)")
  from kf_predict_shapes[OF d pos p1] obtain x where
    f1: "dims_ok ?n ?m f1" "is_mat ?n 1 (statePre f1)" "is_mat ?n ?n (errorCovPre f1)"
    and x: "r1 = Inr x" "is_mat ?n 1 x"
    by blast
  show ?thesis
  proof (cases "pack (measure_num s) m")
    case (Inl e)
    with p1 x f1 sup st show ?thesis
      by (simp add: update_def wf_def)
  next
    case (Inr z)
    obtain r2 f2 where c: "kf_correct slv z f1 = (r2, f2)"
      by (cases "kf_correct slv z f1")
    from kf_correct_shapes[OF f1 pos c] have f2: "dims_ok ?n ?m f2" .
    then have "is_mat ?n 1 (statePost f2)"
      by (simp add: dims_ok_def)
    with Inr p1 x c f2 sup st show ?thesis
      by (cases r2) (simp_all add: update_def wf_def)
  qed
qed

lemma set_q_r_wf: "wf s \<Longrightarrow> wf (set_q_r cp cm s)"
  by (auto simp: wf_def set_q_r_def supported_def dims_ok_def scale_def is_mat_def)

lemma init_wf: "supported sn mn \<Longrightarrow> Stabilizer_init sn mn cp cm = Inr s \<Longrightarrow> wf s"
  by (auto simp: supported_def Stabilizer_init_def KalmanFilter_init_def wf_def dims_ok_def
        scale_def is_mat_def zeros_def eye_def Let_def list_all_iff)

lemma reachable_wf: "reachable slv s cp cm \<Longrightarrow> wf s"
  by (induction rule: reachable.induct) (simp_all add: init_wf update_wf set_q_r_wf)


lemma scaled_identity_1: "scaled_identity (Suc 0) c = scale [[1]] c"
  by (simp add: scaled_identity_def scale_def)

lemma scaled_identity_2: "scaled_identity 2 c = scale [[1, 0], [0, 1]] c"
  by (simp add: scaled_identity_def scale_def upt_conv_Cons)

lemma scaled_identity_4:
  "scaled_identity 4 c = scale [[1, 0, 0, 0], [0, 1, 0, 0], [0, 0, 1, 0], [0, 0, 0, 1]] c"
  by (simp add: scaled_identity_def scale_def upt_conv_Cons)


lemma init_noise:
  assumes "supported sn mn" "Stabilizer_init sn mn cp cm = Inr s"
  shows "state_num s = sn \<and> measure_num s = mn \<and>
         processNoiseCov (filter_kf s) = scaled_identity (nat sn) cp \<and>
         measurementNoiseCov (filter_kf s) = scaled_identity (nat mn) cm"
  using assms
  by (auto simp: supported_def Stabilizer_init_def KalmanFilter_init_def Let_def
        scaled_identity_1 scaled_identity_2 scaled_identity_4)

lemma set_q_r_noise:
  assumes "supported (state_num s) (measure_num s)"
  shows "processNoiseCov (filter_kf (set_q_r cp cm s)) = scaled_identity (nat (state_num s)) cp \<and>
         measurementNoiseCov (filter_kf (set_q_r cp cm s)) = scaled_identity (nat (measure_num s)) cm"
  using assms
  by (auto simp: supported_def set_q_r_def scaled_identity_1 scaled_identity_2 scaled_identity_4)

lemma set_q_r_nums:
  "state_num (set_q_r cp cm s) = state_num s \<and> measure_num (set_q_r cp cm s) = measure_num s"
  by (simp add: set_q_r_def)

lemma reachable_noise:
  "reachable slv s cp cm \<Longrightarrow>
     processNoiseCov (filter_kf s) = scaled_identity (nat (state_num s)) cp \<and>
     measurementNoiseCov (filter_kf s) = scaled_identity (nat (measure_num s)) cm"
proof (induction rule: reachable.induct)
  case (constructed sn mn cp cm s)
  then show ?case
    using init_noise by blast
next
  case (updated s cp cm m)
  then show ?case
    by (simp add: update_frame)
next
  case (retuned s cp cm cp' cm')
  then have "supported (state_num s) (measure_num s)"
    using reachable_wf by (auto simp: wf_def)
  then show ?case
    by (simp add: set_q_r_noise set_q_r_nums)
qed

lemma set_q_r_unfold:
  assumes "supported (state_num s) (measure_num s)"
  shows "set_q_r cp cm s =
         s\<lparr>filter_kf := (filter_kf s)
           \<lparr>processNoiseCov := scaled_identity (nat (state_num s)) cp,
            measurementNoiseCov := scaled_identity (nat (measure_num s)) cm\<rparr>\<rparr>"
  using assms
  by (auto simp: supported_def set_q_r_def scaled_identity_1 scaled_identity_2 scaled_identity_4)

lemma set_q_r_same:
  assumes "supported (state_num s) (measure_num s)"
    "processNoiseCov (filter_kf s) = scaled_identity (nat (state_num s)) cp"
    "measurementNoiseCov (filter_kf s) = scaled_identity (nat (measure_num s)) cm"
  shows "set_q_r cp cm s = s"
  by (simp add: set_q_r_unfold[OF assms(1)] assms(2)[symmetric] assms(3)[symmetric])

section \<open>Construction\<close>

text \<open>The two supported constructions, evaluated for any pair of noise scalars.\<close>

lemma init_scalar:
  "Stabilizer_init 2 1 cp cm =
     Inr \<lparr>state_num = 2, measure_num = 1,
          filter_kf =
            \<lparr>statePre = [[0], [0]], statePost = [[0], [0]],
             transitionMatrix = [[1, 1], [0, 1]],
             processNoiseCov = [[cp, 0], [0, cp]],
             measurementMatrix = [[1, 1]],
             measurementNoiseCov = [[cm]],
             errorCovPre = [[0, 0], [0, 0]], errorCovPost = [[0, 0], [0, 0]],
             gain = [[0], [0]]\<rparr>,
          state = [[0], [0]], measurement = Array1 [1, 1], prediction = [[0], [0]]\<rparr>"
  by (simp add: Stabilizer_init_def KalmanFilter_init_def Let_def zeros_def scale_def
        eval_nat_numeral)

lemma init_point:
  "Stabilizer_init 4 2 cp cm =
     Inr \<lparr>state_num = 4, measure_num = 2,
          filter_kf =
            \<lparr>statePre = [[0], [0], [0], [0]], statePost = [[0], [0], [0], [0]],
             transitionMatrix = [[1, 0, 1, 0], [0, 1, 0, 1], [0, 0, 1, 0], [0, 0, 0, 1]],
             processNoiseCov = [[cp, 0, 0, 0], [0, cp, 0, 0], [0, 0, cp, 0], [0, 0, 0, cp]],
             measurementMatrix = [[1, 0, 0, 0], [0, 1, 0, 0]],
             measurementNoiseCov = [[cm, 0], [0, cm]],
             errorCovPre = [[0, 0, 0, 0], [0, 0, 0, 0], [0, 0, 0, 0], [0, 0, 0, 0]],
             errorCovPost = [[0, 0, 0, 0], [0, 0, 0, 0], [0, 0, 0, 0], [0, 0, 0, 0]],
             gain = [[0, 0], [0, 0], [0, 0], [0, 0]]\<rparr>,
          state = [[0], [0], [0], [0]], measurement = Array1 [2, 1],
          prediction = [[0], [0], [0], [0]]\<rparr>"
  by (simp add: Stabilizer_init_def KalmanFilter_init_def Let_def zeros_def scale_def
        eval_nat_numeral)

text \<open>
  C1. The measurement matrix is claimed to select the position: \<open>[[1, 0]]\<close> for a scalar.
  The constructor assigns \<open>[[1, 1]]\<close> in the scalar configuration: applied to a state of
  position \<open>p\<close> and velocity \<open>v\<close> it gives \<open>p + v\<close>, not \<open>p\<close>. In the point
  configuration the matrix is the selecting one, and returns the two positions.
\<close>

theorem scalar_measurementMatrix_adds_velocity:
  "(\<exists>s. Stabilizer_init 2 1 cp cm = Inr s \<and>
        measurementMatrix (filter_kf s) = [[1, 1]] \<and>
        mat_mul (measurementMatrix (filter_kf s)) [[p], [v]] = Inr [[p + v]]) \<and>
   (\<exists>s. Stabilizer_init 4 2 cp cm = Inr s \<and>
        measurementMatrix (filter_kf s) = [[1, 0, 0, 0], [0, 1, 0, 0]] \<and>
        mat_mul (measurementMatrix (filter_kf s)) [[x], [y], [vx], [vy]] = Inr [[x], [y]])"
  by (simp add: init_scalar init_point mat_mul_def ncols_def nrows_def mat_t_def dot_def
        upt_conv_Cons)

text \<open>
  C2, as amended. The constructor raises its assertion exactly when \<open>state_num\<close> is
  neither 2 nor 4; \<open>measure_num\<close> plays no part in it.
\<close>

theorem init_assertion_iff_state_num:
  "(Stabilizer_init sn mn cp cm = Inl AssertionError) = (\<not> (sn = 2 \<or> sn = 4))"
  by (auto simp: Stabilizer_init_def KalmanFilter_init_def Let_def split: sum.splits if_splits)

theorem init_assertion_iff_state_num_witness:
  "Stabilizer_init 3 1 (1 / 10000) (1 / 10) = Inl AssertionError \<and>
   Stabilizer_init 6 2 (1 / 10000) (1 / 10) = Inl AssertionError \<and>
   Stabilizer_init 4 1 (1 / 10000) (1 / 10) \<noteq> Inl AssertionError"
  using init_assertion_iff_state_num[of 3 1 "1 / 10000" "1 / 10"]
    init_assertion_iff_state_num[of 6 2 "1 / 10000" "1 / 10"]
    init_assertion_iff_state_num[of 4 1 "1 / 10000" "1 / 10"]
  by simp

text \<open>
  C2 as stated fails: the pair \<open>(4, 1)\<close> is outside the two supported configurations and
  the assertion does not fire.
\<close>

theorem init_4_1_not_rejected_counterexample:
  "\<not> ((Stabilizer_init 4 1 (1 / 10000) (1 / 10) = Inl AssertionError) =
       ((4 :: int, 1 :: int) \<notin> {(2, 1), (4, 2)}))"
  by (simp add: Stabilizer_init_def KalmanFilter_init_def Let_def)

text \<open>
  C3 as stated fails: with \<open>state_num = 2\<close> and \<open>measure_num = 2\<close> the constructor
  completes, leaving a transition matrix of four rows beside a state of two entries.
\<close>

theorem init_2_2_completes_counterexample:
  "Stabilizer_init 2 2 (1 / 10000) (1 / 10) =
     Inr \<lparr>state_num = 2, measure_num = 2,
          filter_kf =
            \<lparr>statePre = [[0], [0]], statePost = [[0], [0]],
             transitionMatrix = [[1, 0, 1, 0], [0, 1, 0, 1], [0, 0, 1, 0], [0, 0, 0, 1]],
             processNoiseCov =
               [[1 / 10000, 0, 0, 0], [0, 1 / 10000, 0, 0],
                [0, 0, 1 / 10000, 0], [0, 0, 0, 1 / 10000]],
             measurementMatrix = [[1, 0, 0, 0], [0, 1, 0, 0]],
             measurementNoiseCov = [[1 / 10, 0], [0, 1 / 10]],
             errorCovPre = [[0, 0], [0, 0]], errorCovPost = [[0, 0], [0, 0]],
             gain = [[0, 0], [0, 0]]\<rparr>,
          state = [[0], [0]], measurement = Array1 [2, 1], prediction = [[0], [0]]\<rparr>"
  by (simp add: Stabilizer_init_def KalmanFilter_init_def Let_def zeros_def scale_def
        eval_nat_numeral)

text \<open>
  C3, as amended. The constructor compares no matrix shape with \<open>state_num\<close> or
  \<open>measure_num\<close>: for \<open>state_num\<close> 2 or 4 and \<open>measure_num\<close> 1 or 2 it always
  completes. For the two pairs outside the supported configurations the shapes are
  inconsistent, and it is the first \<^verbatim>\<open>update\<close> that fails, with OpenCV's error.
\<close>

theorem init_completes_without_dimension_check:
  assumes "sn = 2 \<or> sn = 4" "mn = 1 \<or> mn = 2"
  shows "\<exists>s. Stabilizer_init sn mn cp cm = Inr s \<and> state_num s = sn \<and> measure_num s = mn \<and>
           (\<not> supported sn mn \<longrightarrow>
              \<not> dims_ok (nat sn) (nat mn) (filter_kf s) \<and>
              fst (update slv m s) = Some CvError)"
proof -
  consider "sn = 2" "mn = 1" | "sn = 4" "mn = 2" | "sn = 2" "mn = 2" | "sn = 4" "mn = 1"
    using assms by blast
  then show ?thesis
  proof cases
    case 1
    then show ?thesis by (simp add: init_scalar supported_def)
  next
    case 2
    then show ?thesis by (simp add: init_point supported_def)
  next
    case 3
    then show ?thesis
      by (simp add: Stabilizer_init_def KalmanFilter_init_def Let_def zeros_def scale_def
        eval_nat_numeral supported_def dims_ok_def is_mat_def update_def kf_predict_def
        mat_mul_def ncols_def nrows_def)
  next
    case 4
    then show ?thesis
      by (simp add: Stabilizer_init_def KalmanFilter_init_def Let_def zeros_def scale_def
        eval_nat_numeral supported_def dims_ok_def is_mat_def update_def kf_predict_def
        mat_mul_def ncols_def nrows_def)
  qed
qed

theorem init_completes_without_dimension_check_witness:
  "\<exists>s. Stabilizer_init 2 2 (1 / 10000) (1 / 10) = Inr s \<and> state_num s = 2 \<and> measure_num s = 2 \<and>
       \<not> dims_ok 2 2 (filter_kf s) \<and> fst (update solve_1x1 [10, 20] s) = Some CvError"
  using init_completes_without_dimension_check[of 2 2 "1 / 10000" "1 / 10" solve_1x1 "[10, 20]"]
  by (simp add: supported_def)

section \<open>Update\<close>

lemma pack_ok:
  assumes "supported sn mn" "nat mn \<le> length m"
  shows "pack mn m = Inr (map (\<lambda>a. [a]) (take (nat mn) m))"
  using assms
  by (auto simp: pack_def supported_def eval_nat_numeral split: list.splits)

lemma solver_ok_solve_1x1: "solver_ok solve_1x1"
  by (auto simp: solver_ok_def solve_1x1_def is_mat_def list_all_iff)

lemma reachable_scalar: "reachable slv (projr (Stabilizer_init 2 1 cp cm)) cp cm"
  by (rule reachable.constructed[of 2 1]) (simp_all add: supported_def init_scalar)


text \<open>
  C4. On every reachable stabilizer and every measurement with at least as many components
  as the mode measures, \<^verbatim>\<open>update\<close> completes, and does the three steps in order:
  \<^verbatim>\<open>predict\<close> on the filter as it stands, whose result \<open>F x\<close> becomes the field
  \<open>prediction\<close>; the measurement packed as a column; \<^verbatim>\<open>correct\<close> with that column on
  the predicted filter, whose a posteriori state becomes the field \<open>state\<close>.
\<close>

theorem update_predict_then_correct:
  assumes "solver_ok slv" "reachable slv s cp cm" "nat (measure_num s) \<le> length m"
  shows "\<exists>p f1 z x f2.
           kf_predict (filter_kf s) = (Inr p, f1) \<and>
           mat_mul (transitionMatrix (filter_kf s)) (statePost (filter_kf s)) = Inr p \<and>
           z = map (\<lambda>a. [a]) (take (nat (measure_num s)) m) \<and>
           kf_correct slv z f1 = (Inr x, f2) \<and> x = statePost f2 \<and>
           update slv m s =
             (None, s\<lparr>filter_kf := f2, prediction := p, measurement := Array2 z, state := x\<rparr>)"
proof -
  let ?n = "nat (state_num s)" and ?m = "nat (measure_num s)"
  from assms(2) have "wf s"
    by (rule reachable_wf)
  then have d: "dims_ok ?n ?m (filter_kf s)" and sup: "supported (state_num s) (measure_num s)"
    by (auto simp: wf_def)
  from sup have pos: "0 < ?n" "0 < ?m"
    by (auto dest: supported_pos)
  obtain r1 f1 where p1: "kf_predict (filter_kf s) = (r1, f1)"
    by (cases "kf_predict (filter_kf s)")
  from kf_predict_shapes[OF d pos(1) p1] obtain p where
    f1: "dims_ok ?n ?m f1" "is_mat ?n 1 (statePre f1)" "is_mat ?n ?n (errorCovPre f1)"
    and p: "r1 = Inr p" "mat_mul (transitionMatrix (filter_kf s)) (statePost (filter_kf s)) = Inr p"
    by blast
  define z where "z = map (\<lambda>a. [a]) (take ?m m)"
  from sup assms(3) have pk: "pack (measure_num s) m = Inr z"
    unfolding z_def by (rule pack_ok)
  from pk sup have zs: "is_mat ?m 1 z"
    by (rule pack_shape)
  from f1 have "is_mat ?m ?n (measurementMatrix f1)" "is_mat ?m ?m (measurementNoiseCov f1)"
    by (simp_all add: dims_ok_def)
  from kf_correct_ok[OF assms(1) this f1(3) f1(2) zs pos] obtain x f2 where
    c: "kf_correct slv z f1 = (Inr x, f2)"
    by blast
  then have x: "x = statePost f2"
    by (rule kf_correct_returns)
  from p1 p pk c x have "update slv m s =
      (None, s\<lparr>filter_kf := f2, prediction := p, measurement := Array2 z, state := x\<rparr>)"
    by (simp add: update_def)
  with p1 p c x z_def show ?thesis
    by blast
qed


theorem update_predict_then_correct_witness:
  "solver_ok solve_1x1 \<and>
   reachable solve_1x1 (projr (Stabilizer_init 2 1 (1 / 10000) (1 / 10))) (1 / 10000) (1 / 10) \<and>
   (\<exists>f2. update solve_1x1 [5] (projr (Stabilizer_init 2 1 (1 / 10000) (1 / 10))) =
      (None, (projr (Stabilizer_init 2 1 (1 / 10000) (1 / 10)))
         \<lparr>filter_kf := f2, prediction := [[0], [0]], measurement := Array2 [[5]],
          state := statePost f2\<rparr>))"
proof -
  let ?s = "projr (Stabilizer_init 2 1 (1 / 10000) (1 / 10))"
  have r: "reachable solve_1x1 ?s (1 / 10000) (1 / 10)"
    by (rule reachable_scalar)
  have m: "nat (measure_num ?s) \<le> length [5 :: real]"
    by (simp add: init_scalar)
  from update_predict_then_correct[OF solver_ok_solve_1x1 r m] obtain p z x f2 where
    p: "mat_mul (transitionMatrix (filter_kf ?s)) (statePost (filter_kf ?s)) = Inr p"
    and z: "z = map (\<lambda>a. [a]) (take (nat (measure_num ?s)) [5])"
    and x: "x = statePost f2"
    and u: "update solve_1x1 [5] ?s =
      (None, ?s\<lparr>filter_kf := f2, prediction := p, measurement := Array2 z, state := x\<rparr>)"
    by blast
  from p have "p = [[0], [0]]"
    by (simp add: init_scalar mat_mul_def ncols_def nrows_def mat_t_def dot_def)
  moreover from z have "z = [[5]]"
    by (simp add: init_scalar)
  ultimately show ?thesis
    using u x r solver_ok_solve_1x1 by blast
qed

section \<open>Retuning\<close>

text \<open>
  C5. \<^verbatim>\<open>set_q_r\<close> changes the two noise covariances and nothing else: F, H, the state
  and the error covariance (a priori and a posteriori), the gain and every field of the
  stabilizer itself are as before. In the two supported configurations the new Q is
  \<open>cov_process\<close> times the identity of size \<open>state_num\<close> and the new R is
  \<open>cov_measure\<close> times the identity of size \<open>measure_num\<close>.
\<close>

theorem set_q_r_frame:
  "transitionMatrix (filter_kf (set_q_r cp cm s)) = transitionMatrix (filter_kf s) \<and>
   measurementMatrix (filter_kf (set_q_r cp cm s)) = measurementMatrix (filter_kf s) \<and>
   statePre (filter_kf (set_q_r cp cm s)) = statePre (filter_kf s) \<and>
   statePost (filter_kf (set_q_r cp cm s)) = statePost (filter_kf s) \<and>
   errorCovPre (filter_kf (set_q_r cp cm s)) = errorCovPre (filter_kf s) \<and>
   errorCovPost (filter_kf (set_q_r cp cm s)) = errorCovPost (filter_kf s) \<and>
   gain (filter_kf (set_q_r cp cm s)) = gain (filter_kf s) \<and>
   state_num (set_q_r cp cm s) = state_num s \<and>
   measure_num (set_q_r cp cm s) = measure_num s \<and>
   state (set_q_r cp cm s) = state s \<and>
   measurement (set_q_r cp cm s) = measurement s \<and>
   prediction (set_q_r cp cm s) = prediction s \<and>
   (supported (state_num s) (measure_num s) \<longrightarrow>
      processNoiseCov (filter_kf (set_q_r cp cm s)) = scaled_identity (nat (state_num s)) cp \<and>
      measurementNoiseCov (filter_kf (set_q_r cp cm s)) =
        scaled_identity (nat (measure_num s)) cm)"
  by (simp add: set_q_r_noise) (simp add: set_q_r_def)

theorem set_q_r_frame_witness:
  "supported 4 2 \<and>
   transitionMatrix (filter_kf (set_q_r (1 / 10) (1 / 1000) (projr (Stabilizer_init 4 2 (1 / 10000) (1 / 10))))) =
     [[1, 0, 1, 0], [0, 1, 0, 1], [0, 0, 1, 0], [0, 0, 0, 1]] \<and>
   processNoiseCov (filter_kf (set_q_r (1 / 10) (1 / 1000) (projr (Stabilizer_init 4 2 (1 / 10000) (1 / 10))))) =
     [[1 / 10, 0, 0, 0], [0, 1 / 10, 0, 0], [0, 0, 1 / 10, 0], [0, 0, 0, 1 / 10]] \<and>
   measurementNoiseCov (filter_kf (set_q_r (1 / 10) (1 / 1000) (projr (Stabilizer_init 4 2 (1 / 10000) (1 / 10))))) =
     [[1 / 1000, 0], [0, 1 / 1000]]"
  using set_q_r_frame[of "1 / 10" "1 / 1000" "projr (Stabilizer_init 4 2 (1 / 10000) (1 / 10))"]
  by (simp add: init_point supported_def scaled_identity_def upt_conv_Cons)





lemma update_prediction:
  "kf_predict (filter_kf s) = (Inr p, f1) \<Longrightarrow> prediction (snd (update slv m s)) = p"
  by (simp add: update_def Let_def split: sum.splits prod.splits)

lemma update_outcome:
  assumes "solver_ok slv" "wf s"
  shows "fst (update slv m s) =
           (if length m < nat (measure_num s) then Some IndexError else None)"
proof -
  let ?n = "nat (state_num s)" and ?m = "nat (measure_num s)"
  from assms(2) have d: "dims_ok ?n ?m (filter_kf s)"
    and sup: "supported (state_num s) (measure_num s)"
    by (auto simp: wf_def)
  from sup have pos: "0 < ?n" "0 < ?m"
    by (auto dest: supported_pos)
  obtain r1 f1 where p1: "kf_predict (filter_kf s) = (r1, f1)"
    by (cases "kf_predict (filter_kf s)")
  from kf_predict_shapes[OF d pos(1) p1] obtain p where
    f1: "dims_ok ?n ?m f1" "is_mat ?n 1 (statePre f1)" "is_mat ?n ?n (errorCovPre f1)"
    and p: "r1 = Inr p"
    by blast
  show ?thesis
  proof (cases "length m < ?m")
    case True
    with sup have "pack (measure_num s) m = Inl IndexError"
      by (simp add: pack_short)
    with p1 p True show ?thesis
      by (simp add: update_def)
  next
    case False
    with sup have pk: "pack (measure_num s) m = Inr (map (\<lambda>a. [a]) (take ?m m))"
      by (simp add: pack_ok)
    from pk sup have zs: "is_mat ?m 1 (map (\<lambda>a. [a]) (take ?m m))"
      by (rule pack_shape)
    from f1 have "is_mat ?m ?n (measurementMatrix f1)" "is_mat ?m ?m (measurementNoiseCov f1)"
      by (simp_all add: dims_ok_def)
    from kf_correct_ok[OF assms(1) this f1(3) f1(2) zs pos] obtain x f2 where
      "kf_correct slv (map (\<lambda>a. [a]) (take ?m m)) f1 = (Inr x, f2)"
      by blast
    with p1 p pk False show ?thesis
      by (simp add: update_def)
  qed
qed

section \<open>Predicting from the initial state\<close>

text \<open>
  C7. In both supported configurations, and for any pair of noise scalars, the first
  \<^verbatim>\<open>predict\<close> after construction returns the zero vector of length \<open>state_num\<close>; it is
  what the first \<^verbatim>\<open>update\<close> stores as the prediction, whatever the measurement.
\<close>

theorem predict_after_construction_is_zero:
  assumes "supported sn mn"
  shows "\<exists>s. Stabilizer_init sn mn cp cm = Inr s \<and>
           fst (kf_predict (filter_kf s)) = Inr (replicate (nat sn) [0]) \<and>
           prediction (snd (update slv m s)) = replicate (nat sn) [0]"
proof -
  have *: "fst (kf_predict (filter_kf s)) = Inr p \<Longrightarrow> prediction (snd (update slv m s)) = p"
    for s p
    by (cases "kf_predict (filter_kf s)") (simp add: update_prediction)
  from assms consider "sn = 2" "mn = 1" | "sn = 4" "mn = 2"
    by (auto simp: supported_def)
  then show ?thesis
  proof cases
    case 1
    have "fst (kf_predict (filter_kf (projr (Stabilizer_init 2 1 cp cm)))) = Inr [[0], [0]]"
      by (simp add: init_scalar kf_predict_def mat_mul_def mat_add_def gemm_2T_def ncols_def
            nrows_def mat_t_def dot_def upt_conv_Cons)
    with 1 *[OF this] show ?thesis
      by (simp add: init_scalar eval_nat_numeral)
  next
    case 2
    have "fst (kf_predict (filter_kf (projr (Stabilizer_init 4 2 cp cm)))) =
            Inr [[0], [0], [0], [0]]"
      by (simp add: init_point kf_predict_def mat_mul_def mat_add_def gemm_2T_def ncols_def
            nrows_def mat_t_def dot_def upt_conv_Cons)
    with 2 *[OF this] show ?thesis
      by (simp add: init_point eval_nat_numeral)
  qed
qed

theorem predict_after_construction_is_zero_witness:
  "supported 4 2 \<and>
   (\<exists>s. Stabilizer_init 4 2 (1 / 10000) (1 / 10) = Inr s \<and>
        fst (kf_predict (filter_kf s)) = Inr [[0], [0], [0], [0]] \<and>
        prediction (snd (update solve_1x1 [10, 20] s)) = [[0], [0], [0], [0]])"
  using predict_after_construction_is_zero[of 4 2 "1 / 10000" "1 / 10" solve_1x1 "[10, 20]"]
  by (simp add: supported_def eval_nat_numeral)

section \<open>Dimensions and arity\<close>

text \<open>
  C8 as stated fails: in the scalar configuration a measurement of two components is not
  rejected; \<^verbatim>\<open>update\<close> completes.
\<close>

theorem update_accepts_longer_measurement_counterexample:
  "length [5, 7 :: real] \<noteq> 1 \<and>
   fst (update solve_1x1 [5, 7] (projr (Stabilizer_init 2 1 (1 / 10000) (1 / 10)))) = None"
  using update_outcome[OF solver_ok_solve_1x1
      reachable_wf[OF reachable_scalar[of solve_1x1 "1 / 10000" "1 / 10"]], of "[5, 7]"]
  by (simp add: init_scalar)

lemma update_pack_cong:
  assumes "pack (measure_num s) m = pack (measure_num s) m'"
  shows "update slv m s = update slv m' s"
  using assms by (simp add: update_def Let_def split: prod.splits sum.splits)

text \<open>
  C8, as amended. A reachable stabilizer is in one of the two configurations, and after
  every \<^verbatim>\<open>update\<close>, completed or not, the prediction and the state are columns of
  \<open>state_num\<close> entries: 2 for a scalar, 4 for a point. \<^verbatim>\<open>update\<close> fails, with
  \<open>IndexError\<close>, exactly on a measurement with fewer components than \<open>measure_num\<close>.
  One with more components is accepted, and only its first \<open>measure_num\<close> components
  (1 for a scalar, 2 for a point) are read: two measurements that have them and agree on
  them give the same outcome and leave the same object.
\<close>

theorem update_dimensions_and_arity:
  assumes "solver_ok slv" "reachable slv s cp cm"
  shows "((state_num s = 2 \<and> measure_num s = 1) \<or> (state_num s = 4 \<and> measure_num s = 2)) \<and>
         is_mat (nat (state_num s)) 1 (prediction (snd (update slv m s))) \<and>
         is_mat (nat (state_num s)) 1 (state (snd (update slv m s))) \<and>
         fst (update slv m s) =
           (if length m < nat (measure_num s) then Some IndexError else None) \<and>
         (nat (measure_num s) \<le> length m \<and> nat (measure_num s) \<le> length m' \<and>
          take (nat (measure_num s)) m' = take (nat (measure_num s)) m \<longrightarrow>
            update slv m' s = update slv m s)"
proof -
  from assms(2) have w: "wf s"
    by (rule reachable_wf)
  then have sup: "supported (state_num s) (measure_num s)"
    by (simp add: wf_def)
  from w have "wf (snd (update slv m s))"
    by (rule update_wf)
  with w update_outcome[OF assms(1) w, of m] have shapes:
    "((state_num s = 2 \<and> measure_num s = 1) \<or> (state_num s = 4 \<and> measure_num s = 2)) \<and>
     is_mat (nat (state_num s)) 1 (prediction (snd (update slv m s))) \<and>
     is_mat (nat (state_num s)) 1 (state (snd (update slv m s))) \<and>
     fst (update slv m s) =
       (if length m < nat (measure_num s) then Some IndexError else None)"
    by (simp add: wf_def update_frame supported_def)
  have "update slv m' s = update slv m s"
    if "nat (measure_num s) \<le> length m" "nat (measure_num s) \<le> length m'"
      "take (nat (measure_num s)) m' = take (nat (measure_num s)) m"
  proof (rule update_pack_cong)
    from sup that show "pack (measure_num s) m' = pack (measure_num s) m"
      by (simp add: pack_ok)
  qed
  with shapes show ?thesis
    by blast
qed

theorem update_dimensions_and_arity_witness:
  "solver_ok solve_1x1 \<and>
   reachable solve_1x1 (projr (Stabilizer_init 2 1 (1 / 10000) (1 / 10))) (1 / 10000) (1 / 10) \<and>
   is_mat 2 1 (prediction (snd (update solve_1x1 [] (projr (Stabilizer_init 2 1 (1 / 10000) (1 / 10)))))) \<and>
   is_mat 2 1 (state (snd (update solve_1x1 [] (projr (Stabilizer_init 2 1 (1 / 10000) (1 / 10)))))) \<and>
   fst (update solve_1x1 [] (projr (Stabilizer_init 2 1 (1 / 10000) (1 / 10)))) = Some IndexError \<and>
   is_mat 2 1 (state (snd (update solve_1x1 [5, 7] (projr (Stabilizer_init 2 1 (1 / 10000) (1 / 10)))))) \<and>
   fst (update solve_1x1 [5, 7] (projr (Stabilizer_init 2 1 (1 / 10000) (1 / 10)))) = None \<and>
   take 1 [5, 99] = take 1 [5, 7 :: real] \<and>
   update solve_1x1 [5, 99] (projr (Stabilizer_init 2 1 (1 / 10000) (1 / 10))) =
   update solve_1x1 [5, 7] (projr (Stabilizer_init 2 1 (1 / 10000) (1 / 10)))"
proof -
  let ?init = "projr (Stabilizer_init 2 1 (1 / 10000) (1 / 10))"
  have r: "reachable solve_1x1 ?init (1 / 10000) (1 / 10)"
    by (rule reachable_scalar)
  have n: "state_num ?init = 2" "measure_num ?init = 1"
    by (simp_all add: init_scalar)
  from update_dimensions_and_arity[OF solver_ok_solve_1x1 r, of "[]" "[]"] n
  have "is_mat 2 1 (prediction (snd (update solve_1x1 [] ?init)))"
    "is_mat 2 1 (state (snd (update solve_1x1 [] ?init)))"
    "fst (update solve_1x1 [] ?init) = Some IndexError"
    by simp_all
  moreover from update_dimensions_and_arity[OF solver_ok_solve_1x1 r, of "[5, 7]" "[5, 99]"] n
  have "is_mat 2 1 (state (snd (update solve_1x1 [5, 7] ?init)))"
    "fst (update solve_1x1 [5, 7] ?init) = None"
    "update solve_1x1 [5, 99] ?init = update solve_1x1 [5, 7] ?init"
    by simp_all
  ultimately show ?thesis
    using r solver_ok_solve_1x1 by simp
qed

section \<open>Retuning with the current scalars\<close>

text \<open>
  C9. On a reachable stabilizer whose current noise scalars (those last given to the
  constructor or to \<^verbatim>\<open>set_q_r\<close>) are \<open>cp\<close> and \<open>cm\<close>, \<^verbatim>\<open>set_q_r\<close> with those same
  scalars changes nothing, so any sequence of updates gives the same outcomes, predictions
  and states with or without it.
\<close>

theorem retune_with_current_scalars_is_noop:
  assumes "reachable slv s cp cm"
  shows "set_q_r cp cm s = s \<and>
         run_updates slv ms (set_q_r cp cm s) = run_updates slv ms s"
proof -
  from assms have "supported (state_num s) (measure_num s)"
    using reachable_wf by (auto simp: wf_def)
  with reachable_noise[OF assms] have "set_q_r cp cm s = s"
    by (simp add: set_q_r_same)
  then show ?thesis
    by simp
qed

theorem retune_with_current_scalars_is_noop_witness:
  "reachable solve_1x1
     (snd (update solve_1x1 [5] (projr (Stabilizer_init 2 1 (1 / 10000) (1 / 10)))))
     (1 / 10000) (1 / 10) \<and>
   run_updates solve_1x1 [[5], [6]]
     (set_q_r (1 / 10000) (1 / 10)
        (snd (update solve_1x1 [5] (projr (Stabilizer_init 2 1 (1 / 10000) (1 / 10)))))) =
   run_updates solve_1x1 [[5], [6]]
     (snd (update solve_1x1 [5] (projr (Stabilizer_init 2 1 (1 / 10000) (1 / 10)))))"
proof -
  have r: "reachable solve_1x1
     (snd (update solve_1x1 [5] (projr (Stabilizer_init 2 1 (1 / 10000) (1 / 10)))))
     (1 / 10000) (1 / 10)"
    by (rule reachable.updated) (rule reachable_scalar)
  from retune_with_current_scalars_is_noop[OF r, of "[[5], [6]]"] r show ?thesis
    by simp
qed

section \<open>What the scalar update reads\<close>

text \<open>
  C10. When \<open>measure_num\<close> is 1, \<^verbatim>\<open>update\<close> reads component 0 of the measurement and
  nothing else: two measurements that agree there give the same outcome and leave the same
  stabilizer, filter included.
\<close>

theorem scalar_update_reads_first_component:
  assumes "measure_num s = 1" "m \<noteq> []" "m' \<noteq> []" "m ! 0 = m' ! 0"
  shows "update slv m s = update slv m' s"
proof -
  from assms(2-4) have "pack 1 m = pack 1 m'"
    by (cases m; cases m') (simp_all add: pack_def)
  with assms(1) show ?thesis
    by (simp add: update_def Let_def split: prod.splits sum.splits)
qed

theorem scalar_update_reads_first_component_witness:
  "measure_num (projr (Stabilizer_init 2 1 (1 / 10000) (1 / 10))) = 1 \<and>
   [5 :: real] ! 0 = [5, 99] ! 0 \<and>
   update solve_1x1 [5] (projr (Stabilizer_init 2 1 (1 / 10000) (1 / 10))) =
   update solve_1x1 [5, 99] (projr (Stabilizer_init 2 1 (1 / 10000) (1 / 10)))"
  using scalar_update_reads_first_component[of "projr (Stabilizer_init 2 1 (1 / 10000) (1 / 10))"
      "[5]" "[5, 99]" solve_1x1]
  by (simp add: init_scalar)

end
